theory Spec2Isabelle
  imports Complex_Main
begin

section \<open>Data model of the OCR reconciliation service\<close>

text \<open>
  The service is \<^verbatim>\<open>src/python_ocr/advanced_ocr_service.py\<close>. Python floats are modelled as
  exact rationals (\<^typ>\<open>rat\<close>): the thresholds \<^verbatim>\<open>0.7\<close> and \<^verbatim>\<open>0.8\<close> are \<open>7/10\<close> and \<open>8/10\<close>,
  and rounding, infinities and NaN are outside the model. Python strings are modelled as
  \<^typ>\<open>string\<close> restricted to ASCII: \<^verbatim>\<open>str.lower\<close> and \<^verbatim>\<open>str.split\<close> act on the ASCII
  letters and the ASCII whitespace characters only.

  A word is the dict the extractors build. Its keys \<^verbatim>\<open>text\<close>, \<^verbatim>\<open>bbox\<close> and
  \<^verbatim>\<open>confidence\<close> are the fields \<open>w_text\<close>, \<open>w_bbox\<close> and \<open>w_confidence\<close>
  (\<^verbatim>\<open>confidence\<close> is read with \<^verbatim>\<open>.get("confidence", 0)\<close>, so it is optional); every other
  key (\<^verbatim>\<open>engine\<close>, \<^verbatim>\<open>font_family\<close>, ...) is kept in \<open>w_extra\<close>, since
  \<^verbatim>\<open>list.remove\<close> compares whole dicts. The keys \<^verbatim>\<open>x\<close>, \<^verbatim>\<open>y\<close>, \<^verbatim>\<open>width\<close>,
  \<^verbatim>\<open>height\<close> of a bounding box are the fields \<open>bbox_x\<close>, \<open>bbox_y\<close>, \<open>bbox_width\<close>,
  \<open>bbox_height\<close>.
\<close>

record bbox =
  bbox_x :: rat
  bbox_y :: rat
  bbox_width :: rat
  bbox_height :: rat

record word =
  w_text :: string
  w_bbox :: bbox
  w_confidence :: "rat option"
  w_extra :: "(string \<times> string) list"

section \<open>Text similarity (\<^verbatim>\<open>_text_similarity\<close>, lines 573-588)\<close>

definition is_space :: "char \<Rightarrow> bool" where
  \<comment> \<open>the ASCII characters for which \<^verbatim>\<open>str.isspace\<close> holds: 9-13 and 28-32\<close>
  "is_space c = (let n = (of_char c :: nat) in (9 \<le> n \<and> n \<le> 13) \<or> (28 \<le> n \<and> n \<le> 32))"

definition lower_char :: "char \<Rightarrow> char" where
  "lower_char c = (let n = (of_char c :: nat) in if 65 \<le> n \<and> n \<le> 90 then char_of (n + 32) else c)"

definition py_lower :: "string \<Rightarrow> string" where
  "py_lower s = map lower_char s"

text \<open>
  \<^verbatim>\<open>str.split()\<close> with no argument: the maximal runs of non-whitespace characters, in order;
  leading and trailing whitespace produce no empty token. \<open>cur\<close> is the token being read.
\<close>

fun split_from :: "string \<Rightarrow> string \<Rightarrow> string list" where
  "split_from cur [] = (if cur = [] then [] else [cur])"
| "split_from cur (c # cs) =
     (if is_space c then (if cur = [] then split_from [] cs else cur # split_from [] cs)
      else split_from (cur @ [c]) cs)"

definition py_split :: "string \<Rightarrow> string list" where
  "py_split s = split_from [] s"

definition text_similarity :: "string \<Rightarrow> string \<Rightarrow> rat" where
  "text_similarity text1 text2 =
     (if text1 = [] \<or> text2 = [] then 0
      else
        let set1 = set (py_split (py_lower text1));
            set2 = set (py_split (py_lower text2))
        in if set1 = {} \<and> set2 = {} then 1
           else
             let intersection = card (set1 \<inter> set2);
                 union = card (set1 \<union> set2)
             in if union > 0 then of_nat intersection / of_nat union else 0)"

definition whitespace_only :: "string \<Rightarrow> bool" where
  \<comment> \<open>every character is whitespace (so the empty string is whitespace-only too)\<close>
  "whitespace_only s = list_all is_space s"

section \<open>The deduplicator (\<^verbatim>\<open>_deduplicate_words\<close>, lines 535-571)\<close>

text \<open>
  The body of the inner loop (lines 544-560): the test that makes \<open>word\<close> a duplicate of
  \<open>existing\<close>. The division is reached only when \<open>x1 < x2\<close> and \<open>y1 < y2\<close>; lemma
  \<open>iou_denominator_positive\<close> below shows that its denominator is then positive, so the
  \<^verbatim>\<open>ZeroDivisionError\<close> branch does not exist in exact arithmetic.
\<close>

definition is_duplicate_of :: "word \<Rightarrow> word \<Rightarrow> bool" where
  "is_duplicate_of word existing =
     (let bbox1 = w_bbox word;
          bbox2 = w_bbox existing;
          x1 = max (bbox_x bbox1) (bbox_x bbox2);
          y1 = max (bbox_y bbox1) (bbox_y bbox2);
          x2 = min (bbox_x bbox1 + bbox_width bbox1) (bbox_x bbox2 + bbox_width bbox2);
          y2 = min (bbox_y bbox1 + bbox_height bbox1) (bbox_y bbox2 + bbox_height bbox2)
      in if x1 < x2 \<and> y1 < y2 then
           (let intersection = (x2 - x1) * (y2 - y1);
                area1 = bbox_width bbox1 * bbox_height bbox1;
                area2 = bbox_width bbox2 * bbox_height bbox2;
                iou = intersection / (area1 + area2 - intersection)
            in iou > 7 / 10 \<and> text_similarity (w_text word) (w_text existing) > 8 / 10)
         else False)"

definition confidence_or_0 :: "word \<Rightarrow> rat" where
  \<comment> \<open>\<^verbatim>\<open>word.get("confidence", 0)\<close>\<close>
  "confidence_or_0 w = (case w_confidence w of None \<Rightarrow> 0 | Some c \<Rightarrow> c)"

text \<open>
  The inner \<^verbatim>\<open>for existing in unique_words\<close> loop. It ends at the first \<open>existing\<close> that
  passes the test (the \<^verbatim>\<open>break\<close>): either \<open>existing\<close> is removed from the list
  (\<open>Superseded existing\<close>) or \<^verbatim>\<open>is_duplicate\<close> is set (\<open>IsDuplicate\<close>). Without such an
  entry the loop runs to the end (\<open>NoMatch\<close>).
\<close>

datatype scan_result = NoMatch | Superseded word | IsDuplicate

fun scan_unique :: "word \<Rightarrow> word list \<Rightarrow> scan_result" where
  "scan_unique word [] = NoMatch"
| "scan_unique word (existing # rest) =
     (if is_duplicate_of word existing then
        (if confidence_or_0 word > confidence_or_0 existing then Superseded existing
         else IsDuplicate)
      else scan_unique word rest)"

text \<open>
  One round of the outer loop. \<^verbatim>\<open>unique_words.remove(existing)\<close> removes the first entry
  equal to \<open>existing\<close> (\<^const>\<open>remove1\<close>), and the incoming word is appended at the end
  unless \<^verbatim>\<open>is_duplicate\<close> was set.
\<close>

definition dedup_step :: "word list \<Rightarrow> word \<Rightarrow> word list" where
  "dedup_step unique_words word =
     (case scan_unique word unique_words of
        NoMatch \<Rightarrow> unique_words @ [word]
      | Superseded existing \<Rightarrow> remove1 existing unique_words @ [word]
      | IsDuplicate \<Rightarrow> unique_words)"

definition deduplicate_words :: "word list \<Rightarrow> word list" where
  "deduplicate_words words = foldl dedup_step [] words"

text \<open>
  The deduplicator in the words of the specification (section 4.3): the intersection over
  union of two boxes, 0 when they do not overlap; the match predicate (IoU above 0.7 and
  text similarity above 0.8); and the first entry of the result list that matches.
\<close>

definition spec_iou :: "bbox \<Rightarrow> bbox \<Rightarrow> rat" where
  "spec_iou a b =
     (let x0 = max (bbox_x a) (bbox_x b);
          y0 = max (bbox_y a) (bbox_y b);
          x1 = min (bbox_x a + bbox_width a) (bbox_x b + bbox_width b);
          y1 = min (bbox_y a + bbox_height a) (bbox_y b + bbox_height b)
      in if x1 \<le> x0 \<or> y1 \<le> y0 then 0
         else (x1 - x0) * (y1 - y0) /
              (bbox_width a * bbox_height a + bbox_width b * bbox_height b - (x1 - x0) * (y1 - y0)))"

definition spec_match :: "word \<Rightarrow> word \<Rightarrow> bool" where
  "spec_match w e =
     (spec_iou (w_bbox w) (w_bbox e) > 7 / 10 \<and> text_similarity (w_text w) (w_text e) > 8 / 10)"


fun no_residual_duplicates :: "word list \<Rightarrow> bool" where
  \<comment> \<open>no word of the list passes the duplicate test against an earlier word of the list\<close>
  "no_residual_duplicates [] = True"
| "no_residual_duplicates (w # ws) =
     (list_all (\<lambda>v. \<not> is_duplicate_of v w) ws \<and> no_residual_duplicates ws)"

definition supersession_safe :: "word list \<Rightarrow> bool" where
  \<comment> \<open>whenever a word \<open>w\<close> of the list passes the duplicate test against a word \<open>e\<close> of
      strictly lower confidence, every word that \<open>w\<close> passes the test against passes it
      against \<open>e\<close> too\<close>
  "supersession_safe ws =
     list_all (\<lambda>w. list_all (\<lambda>e. list_all (\<lambda>x.
        is_duplicate_of w e \<and> confidence_or_0 e < confidence_or_0 w \<and> is_duplicate_of w x
          \<longrightarrow> is_duplicate_of x e) ws) ws) ws"

section \<open>Reconciliation (\<^verbatim>\<open>_reconcile_extraction_sources\<close>, lines 485-533)\<close>

text \<open>
  The dicts the extractors hand to the reconciler. A key that the reconciler reads with
  \<^verbatim>\<open>.get(key, default)\<close> is an optional field; \<open>None\<close> is the absent key.
\<close>

record shape =
  sh_type :: string
  sh_bbox :: bbox
  sh_coordinates :: "(rat \<times> rat) list option"

record cell =
  cell_text :: string
  cell_row :: nat
  cell_col :: nat
  cell_confidence :: rat

record table =
  tb_page_number :: "nat option"
  tb_table_id :: "nat \<times> nat"
  tb_bbox :: bbox
  tb_cells :: "cell list"
  tb_rows :: nat
  tb_cols :: nat

record src_page =
  sp_page_number :: nat
  sp_width :: "rat option"
  sp_height :: "rat option"
  sp_words :: "word list option"
  sp_shapes :: "shape list option"
  sp_method :: string

record src_data =
  sd_pages :: "src_page list option"
  sd_total_pages :: nat
  sd_method :: string

record layout_element =
  le_type :: string
  le_bbox :: bbox
  le_confidence :: rat

record coverage =
  cov_native_words :: nat
  cov_ocr_words :: nat
  cov_final_words :: nat
  cov_coverage_percent :: rat

text \<open>
  A page of the result. The PDF path writes the key \<^verbatim>\<open>tables\<close> and the image path the key
  \<^verbatim>\<open>layout_elements\<close>; the key a path does not write is \<open>None\<close>.
\<close>

record page =
  pg_page_number :: nat
  pg_width :: rat
  pg_height :: rat
  pg_words :: "word list"
  pg_tables :: "table list option"
  pg_layout_elements :: "layout_element list option"
  pg_shapes :: "shape list"
  pg_coverage :: coverage

record document =
  doc_pages :: "page list"
  doc_total_pages :: nat
  doc_extraction_methods :: "string list"
  doc_overall_coverage :: rat

definition get_pages :: "src_data \<Rightarrow> src_page list" where
  \<comment> \<open>\<^verbatim>\<open>data.get("pages", [])\<close>\<close>
  "get_pages d = (case sd_pages d of None \<Rightarrow> [] | Some ps \<Rightarrow> ps)"

definition get_words :: "src_page \<Rightarrow> word list" where
  \<comment> \<open>\<^verbatim>\<open>page.get("words", [])\<close>\<close>
  "get_words p = (case sp_words p of None \<Rightarrow> [] | Some ws \<Rightarrow> ws)"

definition get_shapes :: "src_page option \<Rightarrow> shape list" where
  \<comment> \<open>\<^verbatim>\<open>(page or {}).get("shapes", [])\<close>\<close>
  "get_shapes p = (case p of None \<Rightarrow> [] | Some q \<Rightarrow> (case sp_shapes q of None \<Rightarrow> [] | Some ss \<Rightarrow> ss))"

definition page_at :: "src_data \<Rightarrow> nat \<Rightarrow> src_page option" where
  \<comment> \<open>\<^verbatim>\<open>pages[page_idx] if page_idx < len(pages) else None\<close>\<close>
  "page_at d page_idx =
     (if page_idx < length (get_pages d) then Some (get_pages d ! page_idx) else None)"

definition coverage_percent_of :: "nat \<Rightarrow> nat \<Rightarrow> nat \<Rightarrow> rat" where
  \<comment> \<open>line 511\<close>
  "coverage_percent_of native_word_count ocr_word_count final_word_count =
     min 100 ((of_nat final_word_count / of_nat (max (max native_word_count ocr_word_count) 1)) * 100)"

definition reconcile_page :: "src_data \<Rightarrow> src_data \<Rightarrow> table list \<Rightarrow> nat \<Rightarrow> page" where
  "reconcile_page native_data ocr_data table_data page_idx =
     (let native_page = page_at native_data page_idx;
          ocr_page = page_at ocr_data page_idx;
          all_words = (case native_page of None \<Rightarrow> [] | Some p \<Rightarrow> get_words p)
                    @ (case ocr_page of None \<Rightarrow> [] | Some p \<Rightarrow> get_words p);
          unique_words = deduplicate_words all_words;
          page_tables = filter (\<lambda>t. tb_page_number t = Some (page_idx + 1)) table_data;
          native_word_count = (case native_page of None \<Rightarrow> 0 | Some p \<Rightarrow> length (get_words p));
          ocr_word_count = (case ocr_page of None \<Rightarrow> 0 | Some p \<Rightarrow> length (get_words p));
          final_word_count = length unique_words;
          coverage_percent = coverage_percent_of native_word_count ocr_word_count final_word_count;
          dims_page = (case native_page of Some p \<Rightarrow> Some p | None \<Rightarrow> ocr_page)
      in \<lparr>pg_page_number = page_idx + 1,
          pg_width = (case dims_page of None \<Rightarrow> 1000
                      | Some p \<Rightarrow> (case sp_width p of None \<Rightarrow> 1000 | Some v \<Rightarrow> v)),
          pg_height = (case dims_page of None \<Rightarrow> 1000
                       | Some p \<Rightarrow> (case sp_height p of None \<Rightarrow> 1000 | Some v \<Rightarrow> v)),
          pg_words = unique_words,
          pg_tables = Some page_tables,
          pg_layout_elements = None,
          pg_shapes = get_shapes native_page @ get_shapes ocr_page,
          pg_coverage = \<lparr>cov_native_words = native_word_count,
                          cov_ocr_words = ocr_word_count,
                          cov_final_words = final_word_count,
                          cov_coverage_percent = coverage_percent\<rparr>\<rparr>)"

definition reconcile_extraction_sources :: "src_data \<Rightarrow> src_data \<Rightarrow> table list \<Rightarrow> document" where
  "reconcile_extraction_sources native_data ocr_data table_data =
     (let reconciled_pages =
            map (reconcile_page native_data ocr_data table_data)
                [0 ..< max (length (get_pages native_data)) (length (get_pages ocr_data))]
      in \<lparr>doc_pages = reconciled_pages,
          doc_total_pages = length reconciled_pages,
          doc_extraction_methods = [''pdf_native'', ''ocr_paddle'', ''pdf_tables''],
          doc_overall_coverage =
            (if reconciled_pages \<noteq> []
             then sum_list (map (\<lambda>p. cov_coverage_percent (pg_coverage p)) reconciled_pages)
                  / of_nat (length reconciled_pages)
             else 0)\<rparr>)"

text \<open>
  The field \<^verbatim>\<open>extraction_methods\<close> in the words of the specification (section 4.5): the
  source types that contributed at least one record. The native source contributes words
  and shapes, the OCR source words, the table detector tables.
\<close>

definition spec_contributing_methods :: "src_data \<Rightarrow> src_data \<Rightarrow> table list \<Rightarrow> string set" where
  "spec_contributing_methods native_data ocr_data table_data =
     (if list_ex (\<lambda>p. \<not> (get_words p = [] \<and> get_shapes (Some p) = [])) (get_pages native_data)
      then {''pdf_native''} else {})
     \<union> (if list_ex (\<lambda>p. get_words p \<noteq> []) (get_pages ocr_data) then {''ocr_paddle''} else {})
     \<union> (if table_data \<noteq> [] then {''pdf_tables''} else {})"

section \<open>Exceptions, module globals and the service object\<close>

text \<open>
  The exceptions the code can meet. \<open>LibraryError\<close> is any exception raised inside an
  external library (PyMuPDF, PIL, pytesseract, PaddleOCR, EasyOCR, pdfplumber, OpenCV);
  \<open>AttributeError cls name\<close> is a read of an attribute that the object does not have;
  \<open>NameError name\<close> is a read of a global name that the module never binds;
  \<open>HTTPException status detail\<close> is FastAPI's exception, a subclass of \<^verbatim>\<open>Exception\<close>, so
  an \<^verbatim>\<open>except Exception\<close> clause catches it like the others.
\<close>

datatype exn =
    ZeroDivisionError
  | ValueError
  | AttributeError string string
  | NameError string
  | LibraryError string
  | HTTPException nat string

definition bind_exn :: "exn + 'a \<Rightarrow> ('a \<Rightarrow> exn + 'b) \<Rightarrow> exn + 'b" where
  \<comment> \<open>sequencing: a raised exception skips the rest\<close>
  "bind_exn m f = (case m of Inl e \<Rightarrow> Inl e | Inr v \<Rightarrow> f v)"

fun map_exn :: "('a \<Rightarrow> exn + 'b) \<Rightarrow> 'a list \<Rightarrow> exn + 'b list" where
  \<comment> \<open>a \<^verbatim>\<open>for\<close> loop that appends one result per item, outside any \<^verbatim>\<open>try\<close>\<close>
  "map_exn f [] = Inr []"
| "map_exn f (a # as) = bind_exn (f a) (\<lambda>b. bind_exn (map_exn f as) (\<lambda>bs. Inr (b # bs)))"

fun collect_until_error :: "('a \<Rightarrow> exn + 'b option) \<Rightarrow> 'a list \<Rightarrow> 'b list" where
  \<comment> \<open>a \<^verbatim>\<open>for\<close> loop inside \<^verbatim>\<open>try ... except Exception\<close> that appends to a list declared
      outside the \<^verbatim>\<open>try\<close>: an exception ends the loop and keeps what was appended\<close>
  "collect_until_error f [] = []"
| "collect_until_error f (a # as) =
     (case f a of
        Inl e \<Rightarrow> []
      | Inr None \<Rightarrow> collect_until_error f as
      | Inr (Some b) \<Rightarrow> b # collect_until_error f as)"

definition py_div :: "rat \<Rightarrow> rat \<Rightarrow> exn + rat" where
  \<comment> \<open>Python's \<^verbatim>\<open>a / b\<close>\<close>
  "py_div a b = (if b = 0 then Inl ZeroDivisionError else Inr (a / b))"

text \<open>
  What happened when the module was loaded: which optional imports succeeded (lines 21-60)
  and whether the engine constructors of \<^verbatim>\<open>AdvancedOCR.__init__\<close> returned.
\<close>

record environment =
  has_pytesseract :: bool
  has_pdfplumber :: bool
  has_pdf2image :: bool
  has_paddleocr :: bool
  has_easyocr :: bool
  paddle_constructs :: bool
  easyocr_constructs :: bool

text \<open>
  The availability flags that the module binds at top level. These five assignments are
  all the flags the file binds; its other global names (\<^verbatim>\<open>logger\<close>, \<^verbatim>\<open>app\<close>,
  \<^verbatim>\<open>ocr_service\<close>, the imported modules) are not flags and are passed to the functions
  below as arguments.
\<close>

definition module_globals :: "environment \<Rightarrow> (string \<rightharpoonup> bool)" where
  "module_globals env =
     [''PYTESSERACT_AVAILABLE'' \<mapsto> has_pytesseract env,
      ''PDFPLUMBER_AVAILABLE'' \<mapsto> has_pdfplumber env,
      ''PDF2IMAGE_AVAILABLE'' \<mapsto> has_pdf2image env,
      ''PADDLE_AVAILABLE'' \<mapsto> has_paddleocr env,
      ''EASY_OCR_AVAILABLE'' \<mapsto> has_easyocr env]"

definition lookup_global :: "(string \<rightharpoonup> bool) \<Rightarrow> string \<Rightarrow> exn + bool" where
  "lookup_global g name = (case g name of None \<Rightarrow> Inl (NameError name) | Some v \<Rightarrow> Inr v)"

text \<open>
  An instance of \<^verbatim>\<open>AdvancedOCR\<close> is its attribute dictionary. An engine is an opaque
  object; what it returns on an image is part of the image (below).
\<close>

datatype py_value = PyNone | PyBool bool | PyObject

type_synonym py_object = "string \<rightharpoonup> py_value"

definition getattr :: "py_object \<Rightarrow> string \<Rightarrow> exn + py_value" where
  "getattr self name =
     (case self name of None \<Rightarrow> Inl (AttributeError ''AdvancedOCR'' name) | Some v \<Rightarrow> Inr v)"

fun truthy :: "py_value \<Rightarrow> bool" where
  "truthy PyNone = False"
| "truthy (PyBool b) = b"
| "truthy PyObject = True"

definition AdvancedOCR_init :: "(string \<rightharpoonup> bool) \<Rightarrow> environment \<Rightarrow> exn + py_object" where
  \<comment> \<open>lines 71-101; a constructor that raises leaves the attribute at \<^verbatim>\<open>None\<close>\<close>
  "AdvancedOCR_init g env =
     bind_exn (lookup_global g ''PYTESSERACT_AVAILABLE'') (\<lambda>pytesseract_available.
       let self1 = [''paddle_ocr'' \<mapsto> PyNone, ''easy_ocr'' \<mapsto> PyNone,
                    ''pytesseract_available'' \<mapsto> PyBool pytesseract_available]
       in bind_exn (lookup_global g ''PADDLE_AVAILABLE'') (\<lambda>paddle_available.
            let self2 = (if paddle_available \<and> paddle_constructs env
                         then self1(''paddle_ocr'' \<mapsto> PyObject) else self1)
            in bind_exn (lookup_global g ''EASY_OCR_AVAILABLE'') (\<lambda>easy_ocr_available.
                 let self3 = (if easy_ocr_available \<and> easyocr_constructs env
                              then self2(''easy_ocr'' \<mapsto> PyObject) else self2)
                 in Inr self3)))"

section \<open>The external collaborators\<close>

text \<open>
  The libraries are outside the repository; each call of one is an outcome \<open>exn + value\<close>
  that the model takes as given. An image (a decoded array) carries its shape and what
  each engine and detector returns on it.
\<close>

type_synonym bytes = "char list"

record tess_row =
  tr_conf :: int
  tr_text :: string
  tr_left :: int
  tr_top :: int
  tr_width :: int
  tr_height :: int

record ocr_line =
  ol_points :: "(rat \<times> rat) list"
  ol_text :: string
  ol_confidence :: rat

record layout_block =
  lb_type :: string
  lb_x_1 :: rat
  lb_y_1 :: rat
  lb_width :: rat
  lb_height :: rat
  lb_score :: rat

record image =
  shape0 :: nat
  shape1 :: nat
  image_to_data :: "exn + tess_row list"
  paddle_ocr_result :: "exn + ocr_line list"
  easy_readtext :: "exn + ocr_line list"
  layout_detect :: "exn + layout_block list"
  cv2_shapes :: "exn + shape list"

record fitz_span =
  span_bbox :: "rat \<times> rat \<times> rat \<times> rat"
  span_text :: string
  span_attrs :: "(string \<times> string) list"

datatype drawing_item =
    LineItem rat rat rat rat
  | RectItem rat rat rat rat
  | OtherItem

record fitz_page =
  rect_width :: rat
  rect_height :: rat
  get_text_spans :: "exn + fitz_span list"
  get_drawings :: "exn + drawing_item list list"
  get_pixmap_image :: "exn + image"

record plumber_table =
  pt_bbox :: "rat \<times> rat \<times> rat \<times> rat"
  pt_extract :: "exn + string option list option list option"

record plumber_page =
  pp_width :: rat
  pp_height :: rat
  pp_find_tables :: "exn + plumber_table list"

record libs =
  fitz_open :: "bytes \<Rightarrow> exn + fitz_page list"
  pdfplumber_open :: "bytes \<Rightarrow> exn + plumber_page list"
  image_open :: "bytes \<Rightarrow> exn + image"
  str_of :: "exn \<Rightarrow> string"

section \<open>Coordinate conversion\<close>

text \<open>
  The code has no separate normalizer: each extractor divides inline. \<open>corners_bbox\<close> is
  the dict literal of lines 174-179 (and 261-266) for a box given by its corners
  \<open>(x0, y0, x1, y1)\<close>; \<open>xywh_bbox\<close> is the one of lines 366-371 (and 329-334) for a box
  given by corner and size on an image. The entries are evaluated in the order written, so
  the first division by a zero dimension raises.
\<close>

definition corners_bbox :: "rat \<times> rat \<times> rat \<times> rat \<Rightarrow> rat \<Rightarrow> rat \<Rightarrow> exn + bbox" where
  "corners_bbox b width height =
     (case b of (b0, b1, b2, b3) \<Rightarrow>
        bind_exn (py_div b0 width) (\<lambda>vx.
        bind_exn (py_div b1 height) (\<lambda>vy.
        bind_exn (py_div (b2 - b0) width) (\<lambda>vw.
        bind_exn (py_div (b3 - b1) height) (\<lambda>vh.
          Inr \<lparr>bbox_x = vx, bbox_y = vy, bbox_width = vw, bbox_height = vh\<rparr>)))))"

definition xywh_bbox :: "rat \<Rightarrow> rat \<Rightarrow> rat \<Rightarrow> rat \<Rightarrow> image \<Rightarrow> exn + bbox" where
  "xywh_bbox x y w h img =
     bind_exn (py_div x (of_nat (shape1 img))) (\<lambda>vx.
     bind_exn (py_div y (of_nat (shape0 img))) (\<lambda>vy.
     bind_exn (py_div w (of_nat (shape1 img))) (\<lambda>vw.
     bind_exn (py_div h (of_nat (shape0 img))) (\<lambda>vh.
       Inr \<lparr>bbox_x = vx, bbox_y = vy, bbox_width = vw, bbox_height = vh\<rparr>))))"

section \<open>Native extraction (\<^verbatim>\<open>_extract_pdf_native\<close>, \<^verbatim>\<open>_extract_pdf_shapes\<close>)\<close>

definition native_word :: "rat \<Rightarrow> rat \<Rightarrow> fitz_span \<Rightarrow> exn + word" where
  "native_word width height sp =
     bind_exn (corners_bbox (span_bbox sp) width height) (\<lambda>b.
       Inr \<lparr>w_text = span_text sp, w_bbox = b, w_confidence = Some 1,
            w_extra = span_attrs sp\<rparr>)"

fun shape_of_item :: "rat \<Rightarrow> rat \<Rightarrow> drawing_item \<Rightarrow> exn + shape option" where
  "shape_of_item width height (LineItem p1x p1y p2x p2y) =
     bind_exn (py_div (min p1x p2x) width) (\<lambda>vx.
     bind_exn (py_div (min p1y p2y) height) (\<lambda>vy.
     bind_exn (py_div (abs (p2x - p1x)) width) (\<lambda>vw.
     bind_exn (py_div (abs (p2y - p1y)) height) (\<lambda>vh.
     bind_exn (py_div p1x width) (\<lambda>c1x.
     bind_exn (py_div p1y height) (\<lambda>c1y.
     bind_exn (py_div p2x width) (\<lambda>c2x.
     bind_exn (py_div p2y height) (\<lambda>c2y.
       Inr (Some \<lparr>sh_type = ''line'',
                  sh_bbox = \<lparr>bbox_x = vx, bbox_y = vy, bbox_width = vw, bbox_height = vh\<rparr>,
                  sh_coordinates = Some [(c1x, c1y), (c2x, c2y)]\<rparr>)))))))))"
| "shape_of_item width height (RectItem x0 y0 w h) =
     bind_exn (py_div x0 width) (\<lambda>vx.
     bind_exn (py_div y0 height) (\<lambda>vy.
     bind_exn (py_div w width) (\<lambda>vw.
     bind_exn (py_div h height) (\<lambda>vh.
       Inr (Some \<lparr>sh_type = ''rectangle'',
                  sh_bbox = \<lparr>bbox_x = vx, bbox_y = vy, bbox_width = vw, bbox_height = vh\<rparr>,
                  sh_coordinates = None\<rparr>)))))"
| "shape_of_item width height OtherItem = Inr None"

definition extract_pdf_shapes :: "fitz_page \<Rightarrow> rat \<Rightarrow> rat \<Rightarrow> shape list" where
  \<comment> \<open>the whole body is inside \<^verbatim>\<open>try ... except Exception\<close>\<close>
  "extract_pdf_shapes page width height =
     (case get_drawings page of
        Inl e \<Rightarrow> []
      | Inr paths \<Rightarrow> collect_until_error (shape_of_item width height) (concat paths))"

definition native_page_of :: "nat \<times> fitz_page \<Rightarrow> exn + src_page" where
  \<comment> \<open>one round of the loop of lines 156-196; nothing here is inside a \<^verbatim>\<open>try\<close>\<close>
  "native_page_of np =
     (case np of (page_num, page) \<Rightarrow>
        let width = rect_width page; height = rect_height page in
        bind_exn (get_text_spans page) (\<lambda>spans.
        bind_exn (map_exn (native_word width height) spans) (\<lambda>words.
          let shapes = extract_pdf_shapes page width height in
          Inr \<lparr>sp_page_number = page_num + 1, sp_width = Some width, sp_height = Some height,
               sp_words = Some words, sp_shapes = Some shapes, sp_method = ''pdf_native''\<rparr>)))"

definition extract_pdf_native :: "libs \<Rightarrow> bytes \<Rightarrow> exn + src_data" where
  "extract_pdf_native L pdf_bytes =
     bind_exn (fitz_open L pdf_bytes) (\<lambda>doc.
     bind_exn (map_exn native_page_of (enumerate 0 doc)) (\<lambda>pages.
       Inr \<lparr>sd_pages = Some pages, sd_total_pages = length pages, sd_method = ''pdf_native''\<rparr>))"

section \<open>OCR (\<^verbatim>\<open>_multi_engine_ocr\<close>, \<^verbatim>\<open>_extract_pdf_via_ocr\<close>)\<close>

definition py_strip :: "string \<Rightarrow> string" where
  "py_strip s = rev (dropWhile is_space (rev (dropWhile is_space s)))"

definition tesseract_word :: "image \<Rightarrow> tess_row \<Rightarrow> exn + word option" where
  \<comment> \<open>one round of the loop of lines 358-374\<close>
  "tesseract_word img row =
     (if tr_conf row > 30 then
        (let text = py_strip (tr_text row) in
         if text \<noteq> [] then
           bind_exn (xywh_bbox (of_int (tr_left row)) (of_int (tr_top row))
                               (of_int (tr_width row)) (of_int (tr_height row)) img) (\<lambda>b.
             Inr (Some \<lparr>w_text = text, w_bbox = b,
                        w_confidence = Some (of_int (tr_conf row) / 100),
                        w_extra = [(''engine'', ''tesseract'')]\<rparr>))
         else Inr None)
      else Inr None)"

definition tesseract_words :: "image \<Rightarrow> word list" where
  \<comment> \<open>the \<^verbatim>\<open>try\<close> block of lines 349-376\<close>
  "tesseract_words img =
     (case image_to_data img of
        Inl e \<Rightarrow> []
      | Inr rows \<Rightarrow> collect_until_error (tesseract_word img) rows)"

fun py_min :: "rat list \<Rightarrow> exn + rat" where
  "py_min [] = Inl ValueError"
| "py_min (v # vs) = Inr (fold min vs v)"

fun py_max :: "rat list \<Rightarrow> exn + rat" where
  "py_max [] = Inl ValueError"
| "py_max (v # vs) = Inr (fold max vs v)"

definition polygon_word :: "string \<Rightarrow> image \<Rightarrow> ocr_line \<Rightarrow> exn + word option" where
  \<comment> \<open>lines 385-401 (PaddleOCR) and 410-425 (EasyOCR): the text is neither stripped nor
      tested for emptiness\<close>
  "polygon_word engine img ocr_ln =
     (let x_coords = map fst (ol_points ocr_ln);
          y_coords = map snd (ol_points ocr_ln)
      in bind_exn (py_min x_coords) (\<lambda>min_x.
         bind_exn (py_div min_x (of_nat (shape1 img))) (\<lambda>vx.
         bind_exn (py_min y_coords) (\<lambda>min_y.
         bind_exn (py_div min_y (of_nat (shape0 img))) (\<lambda>vy.
         bind_exn (py_max x_coords) (\<lambda>max_x.
         bind_exn (py_div (max_x - min_x) (of_nat (shape1 img))) (\<lambda>vw.
         bind_exn (py_max y_coords) (\<lambda>max_y.
         bind_exn (py_div (max_y - min_y) (of_nat (shape0 img))) (\<lambda>vh.
           Inr (Some \<lparr>w_text = ol_text ocr_ln,
                      w_bbox = \<lparr>bbox_x = vx, bbox_y = vy, bbox_width = vw, bbox_height = vh\<rparr>,
                      w_confidence = Some (ol_confidence ocr_ln),
                      w_extra = [(''engine'', engine)]\<rparr>))))))))))"

definition paddle_words :: "image \<Rightarrow> word list" where
  "paddle_words img =
     (case paddle_ocr_result img of
        Inl e \<Rightarrow> []
      | Inr lines \<Rightarrow> collect_until_error (polygon_word ''paddle'' img) lines)"

definition easy_words :: "image \<Rightarrow> word list" where
  "easy_words img =
     (case easy_readtext img of
        Inl e \<Rightarrow> []
      | Inr lines \<Rightarrow> collect_until_error (polygon_word ''easy'' img) lines)"

definition multi_engine_ocr :: "py_object \<Rightarrow> image \<Rightarrow> exn + word list" where
  \<comment> \<open>the value of the key \<^verbatim>\<open>words\<close> of the dict returned\<close>
  "multi_engine_ocr self img =
     bind_exn (getattr self ''pytesseract_available'') (\<lambda>pytesseract_available.
       let all_words1 = (if truthy pytesseract_available then tesseract_words img else []) in
       bind_exn (getattr self ''paddle_ocr'') (\<lambda>paddle_ocr.
         let all_words2 = (if truthy paddle_ocr \<and> length all_words1 < 10
                           then all_words1 @ paddle_words img else all_words1) in
         bind_exn (getattr self ''easy_ocr'') (\<lambda>easy_ocr.
           let all_words3 = (if truthy easy_ocr \<and> length all_words2 = 0
                             then all_words2 @ easy_words img else all_words2) in
           Inr all_words3)))"

definition ocr_page_of :: "py_object \<Rightarrow> nat \<times> fitz_page \<Rightarrow> exn + src_page" where
  \<comment> \<open>one round of the loop of lines 206-226; the pixmap and the decoded image have the
      same dimensions\<close>
  "ocr_page_of self np =
     (case np of (page_num, page) \<Rightarrow>
        bind_exn (get_pixmap_image page) (\<lambda>img.
        bind_exn (multi_engine_ocr self img) (\<lambda>ocr_words.
          Inr \<lparr>sp_page_number = page_num + 1, sp_width = Some (of_nat (shape1 img)),
               sp_height = Some (of_nat (shape0 img)), sp_words = Some ocr_words,
               sp_shapes = None, sp_method = ''pdf_to_image_ocr''\<rparr>)))"

definition extract_pdf_via_ocr :: "py_object \<Rightarrow> libs \<Rightarrow> bytes \<Rightarrow> exn + src_data" where
  "extract_pdf_via_ocr self L pdf_bytes =
     bind_exn (fitz_open L pdf_bytes) (\<lambda>doc.
     bind_exn (map_exn (ocr_page_of self) (enumerate 0 doc)) (\<lambda>pages.
       Inr \<lparr>sd_pages = Some pages, sd_total_pages = length pages, sd_method = ''pdf_ocr''\<rparr>))"

section \<open>Table detection (\<^verbatim>\<open>_extract_pdf_tables\<close>, lines 231-274)\<close>

definition cells_of_row :: "nat \<times> string option list option \<Rightarrow> cell list" where
  \<comment> \<open>lines 249-256: a row may be \<^verbatim>\<open>None\<close>, a cell \<^verbatim>\<open>None\<close> or empty\<close>
  "cells_of_row ir =
     (case ir of (row_idx, row) \<Rightarrow>
        List.map_filter
          (\<lambda>(col_idx, cell_text).
             (case cell_text of
                None \<Rightarrow> None
              | Some t \<Rightarrow>
                  if t = [] then None
                  else Some \<lparr>cell_text = t, cell_row = row_idx, cell_col = col_idx,
                             cell_confidence = 95 / 100\<rparr>))
          (enumerate 0 (case row of None \<Rightarrow> [] | Some r \<Rightarrow> r)))"

definition build_table :: "nat \<Rightarrow> plumber_page \<Rightarrow> nat \<times> plumber_table \<Rightarrow> exn + table" where
  \<comment> \<open>one round of the loop of lines 241-270; \<open>tb_table_id\<close> holds the two numbers of
      \<^verbatim>\<open>table_{page_num}_{table_idx}\<close>\<close>
  "build_table page_num page it =
     (case it of (table_idx, tbl) \<Rightarrow>
        bind_exn (pt_extract tbl) (\<lambda>table_data.
          let data_rows = (case table_data of None \<Rightarrow> [] | Some r \<Rightarrow> r);
              cells = concat (map cells_of_row (enumerate 0 data_rows))
          in bind_exn (corners_bbox (pt_bbox tbl) (pp_width page) (pp_height page)) (\<lambda>b.
               Inr \<lparr>tb_page_number = Some (page_num + 1),
                    tb_table_id = (page_num, table_idx),
                    tb_bbox = b,
                    tb_cells = cells,
                    tb_rows = length data_rows,
                    tb_cols = fold max (map (\<lambda>row. length (case row of None \<Rightarrow> [] | Some r \<Rightarrow> r))
                                            data_rows) 0\<rparr>)))"

fun collect_flagged :: "('a \<Rightarrow> exn + 'b) \<Rightarrow> 'a list \<Rightarrow> 'b list \<times> bool" where
  \<comment> \<open>the results appended before the first exception, and whether one was raised\<close>
  "collect_flagged f [] = ([], False)"
| "collect_flagged f (a # as) =
     (case f a of
        Inl e \<Rightarrow> ([], True)
      | Inr b \<Rightarrow> (case collect_flagged f as of (bs, raised) \<Rightarrow> (b # bs, raised)))"

definition page_tables :: "nat \<times> plumber_page \<Rightarrow> table list \<times> bool" where
  "page_tables np =
     (case np of (page_num, page) \<Rightarrow>
        (case pp_find_tables page of
           Inl e \<Rightarrow> ([], True)
         | Inr tbls \<Rightarrow> collect_flagged (build_table page_num page) (enumerate 0 tbls)))"

fun pages_tables :: "(nat \<times> plumber_page) list \<Rightarrow> table list" where
  \<comment> \<open>the loop over \<^verbatim>\<open>pdf.pages\<close>: an exception ends it and keeps the tables appended so far\<close>
  "pages_tables [] = []"
| "pages_tables (np # rest) =
     (case page_tables np of
        (ts, True) \<Rightarrow> ts
      | (ts, False) \<Rightarrow> ts @ pages_tables rest)"

definition extract_pdf_tables :: "(string \<rightharpoonup> bool) \<Rightarrow> libs \<Rightarrow> bytes \<Rightarrow> exn + table list" where
  "extract_pdf_tables g L pdf_bytes =
     bind_exn (lookup_global g ''PDFPLUMBER_AVAILABLE'') (\<lambda>pdfplumber_available.
       if \<not> pdfplumber_available then Inr []
       else Inr (case pdfplumber_open L pdf_bytes of
                   Inl e \<Rightarrow> []
                 | Inr pdf_pages \<Rightarrow> pages_tables (enumerate 0 pdf_pages)))"

section \<open>The PDF path (\<^verbatim>\<open>extract_pdf_with_coordinates\<close>, lines 103-122)\<close>

definition extract_pdf_with_coordinates ::
  "(string \<rightharpoonup> bool) \<Rightarrow> py_object \<Rightarrow> libs \<Rightarrow> bytes \<Rightarrow> exn + document" where
  "extract_pdf_with_coordinates g self L pdf_bytes =
     (case
        bind_exn (extract_pdf_native L pdf_bytes) (\<lambda>native_data.
        bind_exn (extract_pdf_via_ocr self L pdf_bytes) (\<lambda>ocr_data.
        bind_exn (lookup_global g ''PDFPLUMBER_AVAILABLE'') (\<lambda>pdfplumber_available.
        bind_exn (if pdfplumber_available then extract_pdf_tables g L pdf_bytes else Inr [])
          (\<lambda>table_data.
             Inr (reconcile_extraction_sources native_data ocr_data table_data)))))
      of
        Inl e \<Rightarrow> Inl (HTTPException 500 (''PDF extraction failed: '' @ str_of L e))
      | Inr reconciled_data \<Rightarrow> Inr reconciled_data)"

section \<open>The image path (\<^verbatim>\<open>extract_image_with_layout\<close>, lines 124-149)\<close>

definition layout_element_of :: "image \<Rightarrow> layout_block \<Rightarrow> exn + layout_element" where
  "layout_element_of img block =
     bind_exn (xywh_bbox (lb_x_1 block) (lb_y_1 block) (lb_width block) (lb_height block) img)
       (\<lambda>b. Inr \<lparr>le_type = lb_type block, le_bbox = b, le_confidence = lb_score block\<rparr>)"

definition analyze_layout :: "py_object \<Rightarrow> image \<Rightarrow> exn + layout_element list" where
  \<comment> \<open>lines 316-341: the read of \<^verbatim>\<open>self.layout_model\<close> on line 318 is before the \<^verbatim>\<open>try\<close>;
      the handler returns the empty list, not the elements built so far\<close>
  "analyze_layout self img =
     bind_exn (getattr self ''layout_model'') (\<lambda>layout_model.
       if \<not> truthy layout_model then Inr []
       else Inr (case bind_exn (layout_detect img) (map_exn (layout_element_of img)) of
                   Inl e \<Rightarrow> []
                 | Inr elements \<Rightarrow> elements))"

definition detect_shapes_and_lines :: "image \<Rightarrow> shape list" where
  \<comment> \<open>lines 431-483, all inside \<^verbatim>\<open>try ... except Exception\<close>; the OpenCV computation is
      taken as the outcome \<open>cv2_shapes\<close>\<close>
  "detect_shapes_and_lines img = (case cv2_shapes img of Inl e \<Rightarrow> [] | Inr shapes \<Rightarrow> shapes)"

definition build_intermediate_representation ::
  "image \<Rightarrow> layout_element list \<Rightarrow> word list \<Rightarrow> shape list \<Rightarrow> document" where
  "build_intermediate_representation img layout_elements ocr_words shapes =
     \<lparr>doc_pages =
        [\<lparr>pg_page_number = 1,
          pg_width = of_nat (shape1 img),
          pg_height = of_nat (shape0 img),
          pg_words = ocr_words,
          pg_tables = None,
          pg_layout_elements = Some layout_elements,
          pg_shapes = shapes,
          pg_coverage = \<lparr>cov_native_words = 0,
                          cov_ocr_words = length ocr_words,
                          cov_final_words = length ocr_words,
                          cov_coverage_percent = 100\<rparr>\<rparr>],
      doc_total_pages = 1,
      doc_extraction_methods = [''paddleocr'', ''layout_parser'', ''opencv_shapes''],
      doc_overall_coverage = 100\<rparr>"

definition extract_image_with_layout :: "py_object \<Rightarrow> libs \<Rightarrow> bytes \<Rightarrow> exn + document" where
  "extract_image_with_layout self L image_bytes =
     (case
        bind_exn (image_open L image_bytes) (\<lambda>image_np.
        bind_exn (analyze_layout self image_np) (\<lambda>layout_elements.
        bind_exn (multi_engine_ocr self image_np) (\<lambda>ocr_words.
          let shapes = detect_shapes_and_lines image_np in
          Inr (build_intermediate_representation image_np layout_elements ocr_words shapes))))
      of
        Inl e \<Rightarrow> Inl (HTTPException 500 (''Image extraction failed: '' @ str_of L e))
      | Inr ir_data \<Rightarrow> Inr ir_data)"

section \<open>The endpoints (lines 615-650)\<close>

record upload =
  up_content_type :: "string option"
  up_filename :: "string option"
  up_content :: bytes

definition startswith :: "string \<Rightarrow> string \<Rightarrow> bool" where
  "startswith s pre = (take (length pre) s = pre)"

definition endswith :: "string \<Rightarrow> string \<Rightarrow> bool" where
  "endswith s suf = (length suf \<le> length s \<and> drop (length s - length suf) s = suf)"

definition is_pdf_upload :: "upload \<Rightarrow> bool" where
  \<comment> \<open>the test of line 626\<close>
  "is_pdf_upload file =
     (let content_type = (case up_content_type file of None \<Rightarrow> [] | Some c \<Rightarrow> c);
          filename = (case up_filename file of None \<Rightarrow> [] | Some f \<Rightarrow> f)
      in content_type = ''application/pdf'' \<or> endswith (py_lower filename) ''.pdf'')"

definition is_image_upload :: "upload \<Rightarrow> bool" where
  \<comment> \<open>the test of line 628\<close>
  "is_image_upload file =
     (let content_type = (case up_content_type file of None \<Rightarrow> [] | Some c \<Rightarrow> c);
          filename = (case up_filename file of None \<Rightarrow> [] | Some f \<Rightarrow> f)
      in startswith content_type ''image/''
         \<or> list_ex (\<lambda>ext. endswith (py_lower filename) ext)
              [''.jpg'', ''.jpeg'', ''.png'', ''.bmp'', ''.tiff''])"

definition extract_document ::
  "(string \<rightharpoonup> bool) \<Rightarrow> py_object \<Rightarrow> libs \<Rightarrow> upload \<Rightarrow> exn + document" where
  \<comment> \<open>the value is the response body, or the exception that leaves the handler\<close>
  "extract_document g ocr_service L file =
     (case
        (let file_content = up_content file in
         if is_pdf_upload file then extract_pdf_with_coordinates g ocr_service L file_content
         else if is_image_upload file then extract_image_with_layout ocr_service L file_content
         else Inl (HTTPException 400 ''Unsupported file type''))
      of
        Inl e \<Rightarrow> Inl (HTTPException 500 (str_of L e))
      | Inr result \<Rightarrow> Inr result)"

record health_services =
  hs_paddle_ocr :: bool
  hs_easy_ocr :: bool
  hs_layout_parser :: bool
  hs_pdf_plumber :: bool

record health =
  h_status :: string
  h_services :: health_services

definition available_and_set ::
  "(string \<rightharpoonup> bool) \<Rightarrow> py_object \<Rightarrow> string \<Rightarrow> string \<Rightarrow> exn + bool" where
  \<comment> \<open>\<^verbatim>\<open>FLAG and ocr_service.attr is not None\<close>: the attribute is read only when the flag
      is true\<close>
  "available_and_set g ocr_service flag attr =
     bind_exn (lookup_global g flag) (\<lambda>available.
       if available then bind_exn (getattr ocr_service attr) (\<lambda>v. Inr (v \<noteq> PyNone))
       else Inr False)"

definition health_check :: "(string \<rightharpoonup> bool) \<Rightarrow> py_object \<Rightarrow> exn + health" where
  \<comment> \<open>the entries of the dict literal are evaluated in the order written\<close>
  "health_check g ocr_service =
     bind_exn (available_and_set g ocr_service ''PADDLE_AVAILABLE'' ''paddle_ocr'') (\<lambda>paddle.
     bind_exn (available_and_set g ocr_service ''EASY_OCR_AVAILABLE'' ''easy_ocr'') (\<lambda>easy.
     bind_exn (available_and_set g ocr_service ''LAYOUT_PARSER_AVAILABLE'' ''layout_model'') (\<lambda>layout.
     bind_exn (lookup_global g ''PDFPLUMBER_AVAILABLE'') (\<lambda>plumber.
       Inr \<lparr>h_status = ''healthy'',
            h_services = \<lparr>hs_paddle_ocr = paddle, hs_easy_ocr = easy,
                          hs_layout_parser = layout, hs_pdf_plumber = plumber\<rparr>\<rparr>))))"

section \<open>Example inputs\<close>

definition word_at :: "string \<Rightarrow> rat \<Rightarrow> rat \<Rightarrow> word" where
  \<comment> \<open>a word in a box of width and height 1/10 whose left edge is at \<open>x0\<close>\<close>
  "word_at t x0 c =
     \<lparr>w_text = t,
      w_bbox = \<lparr>bbox_x = x0, bbox_y = 0, bbox_width = 1 / 10, bbox_height = 1 / 10\<rparr>,
      w_confidence = Some c, w_extra = []\<rparr>"

definition ex_env :: environment where
  "ex_env = \<lparr>has_pytesseract = True, has_pdfplumber = True, has_pdf2image = False,
             has_paddleocr = False, has_easyocr = False,
             paddle_constructs = False, easyocr_constructs = False\<rparr>"

definition ex_service :: py_object where
  "ex_service = [''paddle_ocr'' \<mapsto> PyNone, ''easy_ocr'' \<mapsto> PyNone,
                 ''pytesseract_available'' \<mapsto> PyBool True]"

fun ex_str_of :: "exn \<Rightarrow> string" where
  "ex_str_of ZeroDivisionError = ''division by zero''"
| "ex_str_of ValueError = ''min() arg is an empty sequence''"
| "ex_str_of (AttributeError cls name) = cls @ '' object has no attribute '' @ name"
| "ex_str_of (NameError name) = ''name '' @ name @ '' is not defined''"
| "ex_str_of (LibraryError msg) = msg"
| "ex_str_of (HTTPException status detail) = detail"

definition ex_image :: image where
  \<comment> \<open>an image on which Tesseract raises\<close>
  "ex_image =
     \<lparr>shape0 = 100, shape1 = 200,
      image_to_data = Inl (LibraryError ''tesseract is not installed''),
      paddle_ocr_result = Inr [], easy_readtext = Inr [],
      layout_detect = Inr [], cv2_shapes = Inr []\<rparr>"

definition ex_span :: fitz_span where
  "ex_span = \<lparr>span_bbox = (72, 72, 144, 84), span_text = ''Total'', span_attrs = []\<rparr>"

definition ex_page :: fitz_page where
  \<comment> \<open>a page with one span, on which the drawing extraction raises\<close>
  "ex_page =
     \<lparr>rect_width = 612, rect_height = 792,
      get_text_spans = Inr [ex_span],
      get_drawings = Inl (LibraryError ''no drawings''),
      get_pixmap_image = Inr ex_image\<rparr>"


definition ex_libs :: libs where
  \<comment> \<open>the table detector raises on every document\<close>
  "ex_libs =
     \<lparr>fitz_open = (\<lambda>b. Inr [ex_page]),
      pdfplumber_open = (\<lambda>b. Inl (LibraryError ''pdfplumber cannot open the file'')),
      image_open = (\<lambda>b. Inr ex_image),
      str_of = ex_str_of\<rparr>"


definition ex_native_data :: src_data where
  \<comment> \<open>one native page with one word\<close>
  "ex_native_data =
     \<lparr>sd_pages = Some [\<lparr>sp_page_number = 1, sp_width = Some 612, sp_height = Some 792,
                          sp_words = Some [word_at ''Total'' 0 1], sp_shapes = Some [],
                          sp_method = ''pdf_native''\<rparr>],
      sd_total_pages = 1, sd_method = ''pdf_native''\<rparr>"

definition ex_ocr_data :: src_data where
  \<comment> \<open>one OCR page without words\<close>
  "ex_ocr_data =
     \<lparr>sd_pages = Some [\<lparr>sp_page_number = 1, sp_width = Some 1224, sp_height = Some 1584,
                          sp_words = Some [], sp_shapes = None,
                          sp_method = ''pdf_to_image_ocr''\<rparr>],
      sd_total_pages = 1, sd_method = ''pdf_ocr''\<rparr>"

definition ex_blank_data :: src_data where
  \<comment> \<open>one page without words\<close>
  "ex_blank_data =
     \<lparr>sd_pages = Some [\<lparr>sp_page_number = 1, sp_width = Some 612, sp_height = Some 792,
                          sp_words = Some [], sp_shapes = Some [],
                          sp_method = ''pdf_native''\<rparr>],
      sd_total_pages = 1, sd_method = ''pdf_native''\<rparr>"

definition ex_dup_data :: src_data where
  \<comment> \<open>one native page on which the same word was extracted twice\<close>
  "ex_dup_data =
     \<lparr>sd_pages = Some [\<lparr>sp_page_number = 1, sp_width = Some 612, sp_height = Some 792,
                          sp_words = Some [word_at ''Total'' 0 1, word_at ''Total'' 0 1],
                          sp_shapes = Some [], sp_method = ''pdf_native''\<rparr>],
      sd_total_pages = 1, sd_method = ''pdf_native''\<rparr>"

definition ex_text_upload :: upload where
  "ex_text_upload =
     \<lparr>up_content_type = Some ''text/plain'', up_filename = Some ''notes.txt'',
      up_content = ''hello''\<rparr>"



section \<open>Properties of the text similarity\<close>

lemma is_space_lower_char: "is_space (lower_char c) = is_space c"
  by (auto simp: is_space_def lower_char_def Let_def)

lemma split_from_whitespace:
  "whitespace_only s \<Longrightarrow> split_from cur s = (if cur = [] then [] else [cur])"
  by (induction s arbitrary: cur) (auto simp: whitespace_only_def)

lemma split_from_nonempty_cur: "cur \<noteq> [] \<Longrightarrow> split_from cur s \<noteq> []"
  by (induction s arbitrary: cur) auto

lemma split_from_token: "\<not> whitespace_only s \<Longrightarrow> split_from cur s \<noteq> []"
  by (induction s arbitrary: cur) (auto simp: whitespace_only_def split_from_nonempty_cur)

lemma whitespace_only_lower: "whitespace_only (py_lower s) = whitespace_only s"
  by (induction s) (auto simp: whitespace_only_def py_lower_def is_space_lower_char)

lemma tokens_empty_iff: "py_split (py_lower s) = [] \<longleftrightarrow> whitespace_only s"
  using split_from_whitespace[of "py_lower s" "[]"] split_from_token[of "py_lower s" "[]"]
  by (auto simp: py_split_def whitespace_only_lower)

lemma text_similarity_one_blank:
  assumes "whitespace_only text1 \<noteq> whitespace_only text2"
  shows "text_similarity text1 text2 = 0"
proof -
  have "set (py_split (py_lower text1)) \<inter> set (py_split (py_lower text2)) = {}"
    using assms tokens_empty_iff[of text1] tokens_empty_iff[of text2] by auto
  then have "card (set (py_split (py_lower text1)) \<inter> set (py_split (py_lower text2))) = 0"
    by (simp only: card.empty)
  moreover have "\<not> (py_split (py_lower text1) = [] \<and> py_split (py_lower text2) = [])"
    using assms by (auto simp: tokens_empty_iff)
  ultimately show ?thesis
    by (auto simp: text_similarity_def Let_def)
qed

lemma text_similarity_both_blank:
  assumes "text1 \<noteq> []" "text2 \<noteq> []" "whitespace_only text1" "whitespace_only text2"
  shows "text_similarity text1 text2 = 1"
  using assms tokens_empty_iff[of text1] tokens_empty_iff[of text2]
  by (simp add: text_similarity_def Let_def)

lemma is_duplicate_of_similarity: "is_duplicate_of w e \<Longrightarrow> text_similarity (w_text w) (w_text e) > 8 / 10"
  by (auto simp: is_duplicate_of_def Let_def split: if_splits)

text \<open>
  Claim C8, as amended. The text similarity is 0, and the pair is never a duplicate, when
  one of the two texts is empty or exactly one of them is whitespace-only. When both texts
  are non-empty and whitespace-only the similarity is 1.
\<close>

theorem text_similarity_blank_texts:
  "(text1 = [] \<or> text2 = [] \<or> whitespace_only text1 \<noteq> whitespace_only text2
      \<longrightarrow> text_similarity text1 text2 = 0
          \<and> (\<forall>w e. w_text w = text1 \<and> w_text e = text2 \<longrightarrow> \<not> is_duplicate_of w e))
   \<and> (text1 \<noteq> [] \<and> text2 \<noteq> [] \<and> whitespace_only text1 \<and> whitespace_only text2
      \<longrightarrow> text_similarity text1 text2 = 1)"
proof (intro conjI impI)
  assume a: "text1 = [] \<or> text2 = [] \<or> whitespace_only text1 \<noteq> whitespace_only text2"
  show z: "text_similarity text1 text2 = 0"
    using a text_similarity_one_blank[of text1 text2]
    by (auto simp: text_similarity_def)
  show "\<forall>w e. w_text w = text1 \<and> w_text e = text2 \<longrightarrow> \<not> is_duplicate_of w e"
    using z is_duplicate_of_similarity by fastforce
next
  assume "text1 \<noteq> [] \<and> text2 \<noteq> [] \<and> whitespace_only text1 \<and> whitespace_only text2"
  then show "text_similarity text1 text2 = 1"
    by (simp add: text_similarity_both_blank)
qed



section \<open>Properties of the deduplicator\<close>

lemma iou_denominator_positive:
  fixes xa ya wa ha xb yb wb hb :: rat
  assumes "max xa xb < min (xa + wa) (xb + wb)" "max ya yb < min (ya + ha) (yb + hb)"
  shows "0 < wa * ha + wb * hb - (min (xa + wa) (xb + wb) - max xa xb) * (min (ya + ha) (yb + hb) - max ya yb)"
proof -
  let ?dx = "min (xa + wa) (xb + wb) - max xa xb"
  let ?dy = "min (ya + ha) (yb + hb) - max ya yb"
  have dx: "0 < ?dx" "?dx \<le> wa" "?dx \<le> wb" using assms(1) by auto
  have dy: "0 < ?dy" "?dy \<le> ha" "?dy \<le> hb" using assms(2) by auto
  have "?dx * ?dy \<le> wa * ha" using dx dy by (intro mult_mono) auto
  moreover have "0 < wb * hb" using dx dy by (intro mult_pos_pos) auto
  ultimately show ?thesis by linarith
qed

lemma is_duplicate_of_spec: "is_duplicate_of w e = spec_match w e"
  by (auto simp: is_duplicate_of_def spec_match_def spec_iou_def Let_def not_less not_le)



lemma scan_unique_NoMatch: "scan_unique w us = NoMatch \<longleftrightarrow> list_all (\<lambda>e. \<not> is_duplicate_of w e) us"
  by (induction us) auto


lemma foldl_dedup_step_fresh:
  "list_all (\<lambda>v. list_all (\<lambda>e. \<not> is_duplicate_of v e) acc) ys \<Longrightarrow> no_residual_duplicates ys
     \<Longrightarrow> foldl dedup_step acc ys = acc @ ys"
proof (induction ys arbitrary: acc)
  case Nil
  then show ?case by simp
next
  case (Cons y ys)
  have "scan_unique y acc = NoMatch"
    using Cons.prems(1) by (simp add: scan_unique_NoMatch)
  then have step: "dedup_step acc y = acc @ [y]"
    by (simp add: dedup_step_def)
  have "list_all (\<lambda>v. list_all (\<lambda>e. \<not> is_duplicate_of v e) (acc @ [y])) ys"
    using Cons.prems by (auto simp: list_all_iff)
  moreover have "no_residual_duplicates ys" using Cons.prems(2) by simp
  ultimately have "foldl dedup_step (acc @ [y]) ys = (acc @ [y]) @ ys"
    by (rule Cons.IH)
  then show ?case using step by simp
qed

lemma deduplicate_words_fixed_point:
  "no_residual_duplicates ys \<Longrightarrow> deduplicate_words ys = ys"
  using foldl_dedup_step_fresh[where acc = "[]" and ys = ys] by (simp add: deduplicate_words_def list_all_iff)

lemma text_similarity_commute: "text_similarity a b = text_similarity b a"
  by (simp add: text_similarity_def Let_def Int_commute Un_commute disj_commute conj_commute)

lemma spec_iou_commute: "spec_iou a b = spec_iou b a"
  by (simp add: spec_iou_def Let_def max.commute min.commute add.commute)

lemma is_duplicate_of_commute: "is_duplicate_of w e = is_duplicate_of e w"
  by (simp add: is_duplicate_of_spec spec_match_def spec_iou_commute[of "w_bbox w" "w_bbox e"]
        text_similarity_commute[of "w_text w" "w_text e"])

lemma no_residual_duplicates_snoc:
  "no_residual_duplicates (xs @ [w])
     = (no_residual_duplicates xs \<and> list_all (\<lambda>x. \<not> is_duplicate_of w x) xs)"
  by (induction xs) (auto simp: list_all_iff)

lemma no_residual_duplicates_remove1:
  "no_residual_duplicates xs \<Longrightarrow> no_residual_duplicates (remove1 e xs)"
  by (induction xs) (auto simp: list_all_iff dest: notin_set_remove1)

lemma no_residual_duplicates_apart:
  "no_residual_duplicates xs \<Longrightarrow> e \<in> set xs \<Longrightarrow> x \<in> set (remove1 e xs)
     \<Longrightarrow> \<not> is_duplicate_of x e"
proof (induction xs)
  case Nil
  then show ?case by simp
next
  case (Cons a xs)
  show ?case
  proof (cases "a = e")
    case True
    then show ?thesis using Cons.prems by (auto simp: list_all_iff)
  next
    case False
    then have e: "e \<in> set xs" using Cons.prems(2) by simp
    have x: "x = a \<or> x \<in> set (remove1 e xs)" using Cons.prems(3) False by auto
    then show ?thesis
    proof
      assume "x = a"
      moreover have "\<not> is_duplicate_of e a" using Cons.prems(1) e by (auto simp: list_all_iff)
      ultimately show ?thesis using is_duplicate_of_commute by blast
    next
      assume "x \<in> set (remove1 e xs)"
      then show ?thesis using Cons.IH Cons.prems(1) e by simp
    qed
  qed
qed

lemma scan_unique_Superseded:
  "scan_unique w us = Superseded e \<Longrightarrow>
     e \<in> set us \<and> is_duplicate_of w e \<and> confidence_or_0 e < confidence_or_0 w"
  by (induction us) (auto split: if_splits)

lemma dedup_step_keeps_settled:
  assumes safe: "\<forall>w\<in>S. \<forall>e\<in>S. \<forall>x\<in>S.
              is_duplicate_of w e \<and> confidence_or_0 e < confidence_or_0 w \<and> is_duplicate_of w x
              \<longrightarrow> is_duplicate_of x e"
      and acc: "no_residual_duplicates acc" "set acc \<subseteq> S" and w: "w \<in> S"
  shows "no_residual_duplicates (dedup_step acc w) \<and> set (dedup_step acc w) \<subseteq> S"
proof (cases "scan_unique w acc")
  case NoMatch
  then have "list_all (\<lambda>e. \<not> is_duplicate_of w e) acc" by (simp add: scan_unique_NoMatch)
  then show ?thesis using acc w NoMatch
    by (simp add: dedup_step_def no_residual_duplicates_snoc)
next
  case (Superseded e)
  have e: "e \<in> set acc" "is_duplicate_of w e" "confidence_or_0 e < confidence_or_0 w"
    using scan_unique_Superseded[OF Superseded] by simp_all
  have sub: "set (remove1 e acc) \<subseteq> S"
    using set_remove1_subset[of e acc] acc(2) by (rule subset_trans)
  have eS: "e \<in> S" using e(1) acc(2) by (rule subsetD[rotated])
  have "\<not> is_duplicate_of w x" if x: "x \<in> set (remove1 e acc)" for x
  proof
    assume m: "is_duplicate_of w x"
    have xS: "x \<in> S" using x sub by (rule subsetD[rotated])
    have "is_duplicate_of w e \<and> confidence_or_0 e < confidence_or_0 w \<and> is_duplicate_of w x
              \<longrightarrow> is_duplicate_of x e"
      using bspec[OF bspec[OF bspec[OF safe w] eS] xS] .
    then have "is_duplicate_of x e" using e(2) e(3) m by simp
    moreover have "\<not> is_duplicate_of x e"
      using acc(1) e(1) x by (rule no_residual_duplicates_apart)
    ultimately show False by simp
  qed
  then have "list_all (\<lambda>x. \<not> is_duplicate_of w x) (remove1 e acc)"
    by (simp add: list_all_iff)
  then show ?thesis using Superseded acc(1) w sub
    by (simp add: dedup_step_def no_residual_duplicates_snoc no_residual_duplicates_remove1)
next
  case IsDuplicate
  then show ?thesis using acc by (simp add: dedup_step_def)
qed

lemma foldl_dedup_step_settled:
  assumes safe: "\<forall>w\<in>S. \<forall>e\<in>S. \<forall>x\<in>S.
              is_duplicate_of w e \<and> confidence_or_0 e < confidence_or_0 w \<and> is_duplicate_of w x
              \<longrightarrow> is_duplicate_of x e"
  shows "no_residual_duplicates acc \<Longrightarrow> set acc \<subseteq> S \<Longrightarrow> set ws \<subseteq> S
           \<Longrightarrow> no_residual_duplicates (foldl dedup_step acc ws)"
proof (induction ws arbitrary: acc)
  case Nil
  then show ?case by simp
next
  case (Cons w ws)
  have w: "w \<in> S" and ws: "set ws \<subseteq> S" using Cons.prems(3) by simp_all
  have step: "no_residual_duplicates (dedup_step acc w) \<and> set (dedup_step acc w) \<subseteq> S"
    using safe Cons.prems(1) Cons.prems(2) w by (rule dedup_step_keeps_settled)
  have "no_residual_duplicates (foldl dedup_step (dedup_step acc w) ws)"
    using step ws by (intro Cons.IH) simp_all
  then show ?case by simp
qed

lemma deduplicate_words_settled:
  assumes "supersession_safe ws"
  shows "no_residual_duplicates (deduplicate_words ws)"
proof -
  have safe: "\<forall>w\<in>set ws. \<forall>e\<in>set ws. \<forall>x\<in>set ws.
              is_duplicate_of w e \<and> confidence_or_0 e < confidence_or_0 w \<and> is_duplicate_of w x
              \<longrightarrow> is_duplicate_of x e"
    using assms unfolding supersession_safe_def list_all_iff .
  have "no_residual_duplicates (foldl dedup_step [] ws)"
    using safe by (rule foldl_dedup_step_settled) simp_all
  then show ?thesis by (simp add: deduplicate_words_def)
qed

text \<open>
  Claim C3, as amended. Running the deduplicator on its own output gives the same list for
  every input list in which, whenever a word \<open>w\<close> passes the duplicate test against a word
  \<open>e\<close> of strictly lower confidence, every word that \<open>w\<close> passes the test against passes it
  against \<open>e\<close> too. This holds in particular when the duplicate test is transitive on the
  input, and when matching words never differ in confidence. On such an input the output
  holds no word that passes the test against an earlier word of the output.
\<close>

theorem deduplicate_words_idempotent_when_safe:
  "supersession_safe ws \<Longrightarrow>
     no_residual_duplicates (deduplicate_words ws)
     \<and> deduplicate_words (deduplicate_words ws) = deduplicate_words ws"
  using deduplicate_words_settled[of ws] deduplicate_words_fixed_point[of "deduplicate_words ws"]
  by simp

section \<open>Properties of the reconciliation\<close>

lemma deduplicate_words_Nil: "deduplicate_words [] = []"
  by (simp add: deduplicate_words_def)

lemma coverage_percent_of_range:
  "0 \<le> coverage_percent_of n o' f \<and> coverage_percent_of n o' f \<le> 100"
  by (simp add: coverage_percent_of_def)

lemma reconcile_page_coverage:
  "cov_coverage_percent (pg_coverage (reconcile_page nd od td i)) =
     coverage_percent_of (cov_native_words (pg_coverage (reconcile_page nd od td i)))
       (cov_ocr_words (pg_coverage (reconcile_page nd od td i)))
       (cov_final_words (pg_coverage (reconcile_page nd od td i)))"
  by (simp add: reconcile_page_def Let_def)

lemma reconcile_page_final: "cov_final_words (pg_coverage (reconcile_page nd od td i)) = length (pg_words (reconcile_page nd od td i))"
  by (simp add: reconcile_page_def Let_def)

lemma reconcile_page_no_words:
  assumes "cov_native_words (pg_coverage (reconcile_page nd od td i)) = 0"
      and "cov_ocr_words (pg_coverage (reconcile_page nd od td i)) = 0"
  shows "cov_final_words (pg_coverage (reconcile_page nd od td i)) = 0"
  using assms
  by (auto simp: reconcile_page_def Let_def deduplicate_words_Nil split: option.splits)

lemma reconcile_pages_length:
  "length (doc_pages (reconcile_extraction_sources nd od td))
     = max (length (get_pages nd)) (length (get_pages od))"
  by (simp add: reconcile_extraction_sources_def Let_def)

lemma reconcile_pages_nth:
  "i < max (length (get_pages nd)) (length (get_pages od)) \<Longrightarrow>
     doc_pages (reconcile_extraction_sources nd od td) ! i = reconcile_page nd od td i"
  by (simp add: reconcile_extraction_sources_def Let_def)

lemma reconcile_page_counts:
  "cov_native_words (pg_coverage (reconcile_page nd od td i))
     = length (case page_at nd i of None \<Rightarrow> [] | Some q \<Rightarrow> get_words q)"
  "cov_ocr_words (pg_coverage (reconcile_page nd od td i))
     = length (case page_at od i of None \<Rightarrow> [] | Some q \<Rightarrow> get_words q)"
  "pg_words (reconcile_page nd od td i)
     = deduplicate_words ((case page_at nd i of None \<Rightarrow> [] | Some q \<Rightarrow> get_words q)
                          @ (case page_at od i of None \<Rightarrow> [] | Some q \<Rightarrow> get_words q))"
  by (simp_all add: reconcile_page_def Let_def split: option.splits)

text \<open>
  Claim C5. A reconciled document has one page for every index below the larger of the two
  sources' page counts. On the page of index \<open>i\<close>, \<^verbatim>\<open>native_words\<close> and \<^verbatim>\<open>ocr_words\<close> are
  the numbers of words of the native and of the OCR page of that index (0 for a page the
  source does not have), \<^verbatim>\<open>final_words\<close> is the number of words the deduplicator returns on
  the native words followed by the OCR words, and \<^verbatim>\<open>coverage_percent\<close> is
  \<open>min(100, final_words / max(native_words, ocr_words, 1) * 100)\<close>. It lies between 0
  and 100, and it is 0 when both sources have no word on the page.
\<close>

theorem coverage_percent_of_sources:
  "length (doc_pages (reconcile_extraction_sources native_data ocr_data table_data))
     = max (length (get_pages native_data)) (length (get_pages ocr_data))
   \<and> (\<forall>i < max (length (get_pages native_data)) (length (get_pages ocr_data)).
        let p = doc_pages (reconcile_extraction_sources native_data ocr_data table_data) ! i;
            native_words = (case page_at native_data i of None \<Rightarrow> [] | Some q \<Rightarrow> get_words q);
            ocr_words = (case page_at ocr_data i of None \<Rightarrow> [] | Some q \<Rightarrow> get_words q);
            final_words = deduplicate_words (native_words @ ocr_words)
        in pg_words p = final_words
           \<and> cov_native_words (pg_coverage p) = length native_words
           \<and> cov_ocr_words (pg_coverage p) = length ocr_words
           \<and> cov_final_words (pg_coverage p) = length final_words
           \<and> cov_coverage_percent (pg_coverage p)
               = min 100 (of_nat (length final_words)
                          / of_nat (max (max (length native_words) (length ocr_words)) 1) * 100)
           \<and> 0 \<le> cov_coverage_percent (pg_coverage p)
           \<and> cov_coverage_percent (pg_coverage p) \<le> 100
           \<and> (native_words = [] \<and> ocr_words = [] \<longrightarrow> cov_coverage_percent (pg_coverage p) = 0))"
proof (intro conjI allI impI)
  show "length (doc_pages (reconcile_extraction_sources native_data ocr_data table_data))
     = max (length (get_pages native_data)) (length (get_pages ocr_data))"
    by (rule reconcile_pages_length)
next
  fix i assume i: "i < max (length (get_pages native_data)) (length (get_pages ocr_data))"
  let ?p = "reconcile_page native_data ocr_data table_data i"
  let ?n = "case page_at native_data i of None \<Rightarrow> [] | Some q \<Rightarrow> get_words q"
  let ?o = "case page_at ocr_data i of None \<Rightarrow> [] | Some q \<Rightarrow> get_words q"
  have p: "doc_pages (reconcile_extraction_sources native_data ocr_data table_data) ! i = ?p"
    using i by (rule reconcile_pages_nth)
  have w: "pg_words ?p = deduplicate_words (?n @ ?o)"
    and n: "cov_native_words (pg_coverage ?p) = length ?n"
    and o: "cov_ocr_words (pg_coverage ?p) = length ?o"
    by (rule reconcile_page_counts)+
  have f: "cov_final_words (pg_coverage ?p) = length (deduplicate_words (?n @ ?o))"
    using reconcile_page_final[of native_data ocr_data table_data i] w by simp
  have c: "cov_coverage_percent (pg_coverage ?p)
             = coverage_percent_of (length ?n) (length ?o) (length (deduplicate_words (?n @ ?o)))"
    using reconcile_page_coverage[of native_data ocr_data table_data i] n o f by simp
  have r: "0 \<le> cov_coverage_percent (pg_coverage ?p) \<and> cov_coverage_percent (pg_coverage ?p) \<le> 100"
    unfolding c by (rule coverage_percent_of_range)
  have z: "?n = [] \<and> ?o = [] \<longrightarrow> cov_coverage_percent (pg_coverage ?p) = 0"
    unfolding c by (simp add: coverage_percent_of_def deduplicate_words_Nil)
  show "let p = doc_pages (reconcile_extraction_sources native_data ocr_data table_data) ! i;
            native_words = (case page_at native_data i of None \<Rightarrow> [] | Some q \<Rightarrow> get_words q);
            ocr_words = (case page_at ocr_data i of None \<Rightarrow> [] | Some q \<Rightarrow> get_words q);
            final_words = deduplicate_words (native_words @ ocr_words)
        in pg_words p = final_words
           \<and> cov_native_words (pg_coverage p) = length native_words
           \<and> cov_ocr_words (pg_coverage p) = length ocr_words
           \<and> cov_final_words (pg_coverage p) = length final_words
           \<and> cov_coverage_percent (pg_coverage p)
               = min 100 (of_nat (length final_words)
                          / of_nat (max (max (length native_words) (length ocr_words)) 1) * 100)
           \<and> 0 \<le> cov_coverage_percent (pg_coverage p)
           \<and> cov_coverage_percent (pg_coverage p) \<le> 100
           \<and> (native_words = [] \<and> ocr_words = [] \<longrightarrow> cov_coverage_percent (pg_coverage p) = 0)"
    unfolding Let_def p
    using w n o f r z c[unfolded coverage_percent_of_def] by simp
qed

text \<open>
  Claim C7, as amended. \<^verbatim>\<open>extraction_methods\<close> of every reconciled document is the fixed
  list \<^verbatim>\<open>["pdf_native", "ocr_paddle", "pdf_tables"]\<close>, whatever the sources contributed.
\<close>

theorem extraction_methods_constant:
  "doc_extraction_methods (reconcile_extraction_sources native_data ocr_data table_data)
     = [''pdf_native'', ''ocr_paddle'', ''pdf_tables'']"
  by (simp add: reconcile_extraction_sources_def Let_def)

section \<open>Properties of the coordinate conversion\<close>





section \<open>Properties of the service: sources, image path and endpoints\<close>

lemma lookup_module_globals:
  "lookup_global (module_globals env) ''PYTESSERACT_AVAILABLE'' = Inr (has_pytesseract env)"
  "lookup_global (module_globals env) ''PDFPLUMBER_AVAILABLE'' = Inr (has_pdfplumber env)"
  "lookup_global (module_globals env) ''PADDLE_AVAILABLE'' = Inr (has_paddleocr env)"
  "lookup_global (module_globals env) ''EASY_OCR_AVAILABLE'' = Inr (has_easyocr env)"
  "lookup_global (module_globals env) ''LAYOUT_PARSER_AVAILABLE'' = Inl (NameError ''LAYOUT_PARSER_AVAILABLE'')"
  by (simp_all add: lookup_global_def module_globals_def)

lemma AdvancedOCR_init_returns:
  "\<exists>self. AdvancedOCR_init (module_globals env) env = Inr self"
  by (simp add: AdvancedOCR_init_def lookup_module_globals bind_exn_def Let_def)

lemma AdvancedOCR_init_attributes:
  assumes "AdvancedOCR_init (module_globals env) env = Inr self"
  shows "getattr self ''pytesseract_available'' = Inr (PyBool (has_pytesseract env))"
    and "getattr self ''paddle_ocr'' =
           Inr (if has_paddleocr env \<and> paddle_constructs env then PyObject else PyNone)"
    and "getattr self ''easy_ocr'' =
           Inr (if has_easyocr env \<and> easyocr_constructs env then PyObject else PyNone)"
    and "getattr self ''layout_model'' = Inl (AttributeError ''AdvancedOCR'' ''layout_model'')"
  using assms
  by (auto simp: AdvancedOCR_init_def lookup_module_globals bind_exn_def Let_def getattr_def
           split: if_splits)




lemma map_exn_raises:
  "a \<in> set as \<Longrightarrow> f a = Inl e \<Longrightarrow> \<exists>e'. map_exn f as = Inl e'"
  by (induction as) (auto simp: bind_exn_def split: sum.splits)











text \<open>
  Claim C2. The constructor always returns a service object, and for that object
  \<^verbatim>\<open>_analyze_layout\<close> raises an \<^verbatim>\<open>AttributeError\<close> for \<^verbatim>\<open>layout_model\<close> on every image, so
  \<^verbatim>\<open>extract_image_with_layout\<close> ends with HTTP status 500 on every input (also when the
  image cannot be decoded) and never returns an intermediate representation.
\<close>

theorem image_path_always_fails:
  "(\<exists>self. AdvancedOCR_init (module_globals env) env = Inr self)
   \<and> (\<forall>self. AdvancedOCR_init (module_globals env) env = Inr self \<longrightarrow>
        analyze_layout self img = Inl (AttributeError ''AdvancedOCR'' ''layout_model'')
        \<and> (\<exists>detail. extract_image_with_layout self L image_bytes = Inl (HTTPException 500 detail)))"
proof (intro conjI allI impI)
  show "\<exists>self. AdvancedOCR_init (module_globals env) env = Inr self"
    by (rule AdvancedOCR_init_returns)
next
  fix self assume a: "AdvancedOCR_init (module_globals env) env = Inr self"
  show "analyze_layout self img = Inl (AttributeError ''AdvancedOCR'' ''layout_model'')"
    by (simp add: analyze_layout_def AdvancedOCR_init_attributes(4)[OF a] bind_exn_def)
  show "\<exists>detail. extract_image_with_layout self L image_bytes = Inl (HTTPException 500 detail)"
    by (cases "image_open L image_bytes")
       (simp_all add: extract_image_with_layout_def analyze_layout_def
          AdvancedOCR_init_attributes(4)[OF a] bind_exn_def)
qed

text \<open>
  Claim C6 fails on the code. For an upload that is neither a PDF nor an image the handler
  raises \<^verbatim>\<open>HTTPException(400, "Unsupported file type")\<close> inside its own \<^verbatim>\<open>try\<close>, whose
  \<^verbatim>\<open>except Exception\<close> clause catches it and raises an \<^verbatim>\<open>HTTPException\<close> with status 500:
  the response status is 500, not 400.
\<close>

theorem unsupported_upload_response:
  "\<not> is_pdf_upload file \<and> \<not> is_image_upload file \<longrightarrow>
     extract_document g ocr_service L file
       = Inl (HTTPException 500 (str_of L (HTTPException 400 ''Unsupported file type'')))"
  by (simp add: extract_document_def)

lemma extract_document_status:
  "extract_document g ocr_service L file = Inl e \<Longrightarrow> \<exists>detail. e = HTTPException 500 detail"
  by (auto simp: extract_document_def Let_def split: sum.splits if_splits)

text \<open>
  Claim C10 fails on the code. The handler reads the global name
  \<^verbatim>\<open>LAYOUT_PARSER_AVAILABLE\<close>, which the module never binds, so every request raises
  \<^verbatim>\<open>NameError\<close> and no JSON object is returned.
\<close>

theorem health_check_raises:
  "AdvancedOCR_init (module_globals env) env = Inr ocr_service \<longrightarrow>
     health_check (module_globals env) ocr_service = Inl (NameError ''LAYOUT_PARSER_AVAILABLE'')"
proof
  assume a: "AdvancedOCR_init (module_globals env) env = Inr ocr_service"
  show "health_check (module_globals env) ocr_service = Inl (NameError ''LAYOUT_PARSER_AVAILABLE'')"
    by (simp add: health_check_def available_and_set_def lookup_module_globals
          AdvancedOCR_init_attributes[OF a] bind_exn_def)
qed


section \<open>The properties on the example inputs\<close>

theorem text_similarity_blank_texts_witness:
  "text_similarity ''  '' ''total'' = 0 \<and> text_similarity '' '' ''  '' = 1"
  using text_similarity_blank_texts[of "''  ''" "''total''"]
        text_similarity_blank_texts[of "'' ''" "''  ''"]
  by (simp add: whitespace_only_def is_space_def)

text \<open>
  Claim C8 as stated fails: the similarity of a one-blank text and a two-blank text is 1,
  not 0.
\<close>

theorem text_similarity_blank_counterexample:
  "whitespace_only '' '' \<and> whitespace_only ''  '' \<and> text_similarity '' '' ''  '' \<noteq> 0"
  by (simp add: whitespace_only_def is_space_def text_similarity_def py_split_def py_lower_def lower_char_def)

lemma text_similarity_total: "text_similarity ''Total'' ''Total'' = 1"
  by (simp add: text_similarity_def py_split_def py_lower_def lower_char_def is_space_def)

lemmas word_at_eval = deduplicate_words_def dedup_step_def is_duplicate_of_def word_at_def
  text_similarity_total confidence_or_0_def Let_def

text \<open>
  Claim C3 as stated fails. Three detections of the same text with left edges at 0, 0.02
  and 0.01: the third supersedes the first (its first match) and is never compared with the
  second, which it also matches; a second run then drops it.
\<close>

theorem deduplicate_words_not_idempotent:
  "deduplicate_words [word_at ''Total'' 0 (5 / 10), word_at ''Total'' (2 / 100) (9 / 10),
                      word_at ''Total'' (1 / 100) (8 / 10)]
     = [word_at ''Total'' (2 / 100) (9 / 10), word_at ''Total'' (1 / 100) (8 / 10)]
   \<and> deduplicate_words [word_at ''Total'' (2 / 100) (9 / 10), word_at ''Total'' (1 / 100) (8 / 10)]
     = [word_at ''Total'' (2 / 100) (9 / 10)]
   \<and> deduplicate_words (deduplicate_words
        [word_at ''Total'' 0 (5 / 10), word_at ''Total'' (2 / 100) (9 / 10),
         word_at ''Total'' (1 / 100) (8 / 10)])
     \<noteq> deduplicate_words [word_at ''Total'' 0 (5 / 10), word_at ''Total'' (2 / 100) (9 / 10),
                           word_at ''Total'' (1 / 100) (8 / 10)]"
  by (simp add: word_at_eval)

lemma is_duplicate_of_same_box:
  "is_duplicate_of (word_at ''Total'' x0 c) (word_at ''Total'' x0 c')"
  by (simp add: is_duplicate_of_def word_at_def text_similarity_total Let_def)

lemma is_duplicate_of_far:
  "\<not> is_duplicate_of (word_at ''Total'' 0 c) (word_at ''Total'' (1 / 2) c')"
  "\<not> is_duplicate_of (word_at ''Total'' (1 / 2) c) (word_at ''Total'' 0 c')"
  by (simp_all add: is_duplicate_of_def word_at_def Let_def)

lemma confidence_word_at: "confidence_or_0 (word_at t x0 c) = c"
  by (simp add: confidence_or_0_def word_at_def)

lemma ex_safe:
  "supersession_safe [word_at ''Total'' 0 (6 / 10), word_at ''Total'' (1 / 2) (7 / 10),
              word_at ''Total'' 0 (9 / 10)]"
  unfolding supersession_safe_def list.pred_inject
  by (simp add: is_duplicate_of_same_box is_duplicate_of_far confidence_word_at)

lemma ex_dedup:
  "deduplicate_words [word_at ''Total'' 0 (6 / 10), word_at ''Total'' (1 / 2) (7 / 10),
              word_at ''Total'' 0 (9 / 10)]
             = [word_at ''Total'' (1 / 2) (7 / 10), word_at ''Total'' 0 (9 / 10)]"
proof -
  have c: "confidence_or_0 (word_at ''Total'' 0 (6 / 10)) < confidence_or_0 (word_at ''Total'' 0 (9 / 10))"
    by (simp add: confidence_word_at)
  have s1: "dedup_step [] (word_at ''Total'' 0 (6 / 10)) = [word_at ''Total'' 0 (6 / 10)]"
    by (simp add: dedup_step_def)
  have s2: "dedup_step [word_at ''Total'' 0 (6 / 10)] (word_at ''Total'' (1 / 2) (7 / 10))
              = [word_at ''Total'' 0 (6 / 10), word_at ''Total'' (1 / 2) (7 / 10)]"
    by (simp only: dedup_step_def scan_unique.simps is_duplicate_of_far if_False
          scan_result.case append_Cons append_Nil)
  have s3: "dedup_step [word_at ''Total'' 0 (6 / 10), word_at ''Total'' (1 / 2) (7 / 10)]
              (word_at ''Total'' 0 (9 / 10))
              = [word_at ''Total'' (1 / 2) (7 / 10), word_at ''Total'' 0 (9 / 10)]"
    by (simp only: dedup_step_def scan_unique.simps is_duplicate_of_same_box c if_True
          scan_result.case remove1.simps simp_thms append_Cons append_Nil)
  show ?thesis
    by (simp only: deduplicate_words_def foldl.simps s1 s2 s3)
qed

theorem deduplicate_words_idempotent_when_safe_witness:
  "deduplicate_words [word_at ''Total'' 0 (6 / 10), word_at ''Total'' (1 / 2) (7 / 10),
                      word_at ''Total'' 0 (9 / 10)]
     = [word_at ''Total'' (1 / 2) (7 / 10), word_at ''Total'' 0 (9 / 10)]
   \<and> deduplicate_words (deduplicate_words
        [word_at ''Total'' 0 (6 / 10), word_at ''Total'' (1 / 2) (7 / 10),
         word_at ''Total'' 0 (9 / 10)])
     = [word_at ''Total'' (1 / 2) (7 / 10), word_at ''Total'' 0 (9 / 10)]"
proof -
  have "deduplicate_words (deduplicate_words
          [word_at ''Total'' 0 (6 / 10), word_at ''Total'' (1 / 2) (7 / 10),
           word_at ''Total'' 0 (9 / 10)])
        = deduplicate_words [word_at ''Total'' 0 (6 / 10), word_at ''Total'' (1 / 2) (7 / 10),
                             word_at ''Total'' 0 (9 / 10)]"
    using deduplicate_words_idempotent_when_safe[OF ex_safe] by (rule conjunct2)
  then show ?thesis by (simp only: ex_dedup simp_thms)
qed




lemma ex_dup_dedup:
  "deduplicate_words [word_at ''Total'' 0 1, word_at ''Total'' 0 1] = [word_at ''Total'' 0 1]"
  by (simp add: deduplicate_words_def dedup_step_def is_duplicate_of_same_box confidence_word_at)

lemma ex_dup_pages:
  "get_pages ex_dup_data \<noteq> []"
  "page_at ex_dup_data 0 = Some \<lparr>sp_page_number = 1, sp_width = Some 612, sp_height = Some 792,
                          sp_words = Some [word_at ''Total'' 0 1, word_at ''Total'' 0 1],
                          sp_shapes = Some [], sp_method = ''pdf_native''\<rparr>"
  "page_at ex_ocr_data 0 = Some \<lparr>sp_page_number = 1, sp_width = Some 1224, sp_height = Some 1584,
                          sp_words = Some [], sp_shapes = None,
                          sp_method = ''pdf_to_image_ocr''\<rparr>"
  "page_at ex_blank_data 0 = Some \<lparr>sp_page_number = 1, sp_width = Some 612, sp_height = Some 792,
                          sp_words = Some [], sp_shapes = Some [],
                          sp_method = ''pdf_native''\<rparr>"
  "get_pages ex_blank_data \<noteq> []"
  by (simp_all add: page_at_def get_pages_def ex_dup_data_def ex_ocr_data_def ex_blank_data_def)

theorem coverage_percent_of_sources_witness:
  "cov_native_words (pg_coverage (doc_pages (reconcile_extraction_sources ex_dup_data ex_ocr_data []) ! 0)) = 2
   \<and> cov_ocr_words (pg_coverage (doc_pages (reconcile_extraction_sources ex_dup_data ex_ocr_data []) ! 0)) = 0
   \<and> cov_final_words (pg_coverage (doc_pages (reconcile_extraction_sources ex_dup_data ex_ocr_data []) ! 0)) = 1
   \<and> cov_coverage_percent (pg_coverage (doc_pages (reconcile_extraction_sources ex_dup_data ex_ocr_data []) ! 0)) = 50
   \<and> cov_coverage_percent (pg_coverage (doc_pages (reconcile_extraction_sources ex_blank_data ex_ocr_data []) ! 0)) = 0"
proof -
  have i1: "0 < max (length (get_pages ex_dup_data)) (length (get_pages ex_ocr_data))"
    by (simp add: get_pages_def ex_dup_data_def)
  have i2: "0 < max (length (get_pages ex_blank_data)) (length (get_pages ex_ocr_data))"
    by (simp add: get_pages_def ex_blank_data_def)
  note t1 = conjunct2[OF coverage_percent_of_sources[of ex_dup_data ex_ocr_data "[]"], rule_format, OF i1]
  note t2 = conjunct2[OF coverage_percent_of_sources[of ex_blank_data ex_ocr_data "[]"], rule_format, OF i2]
  show ?thesis
    using t1 t2
    by (simp add: Let_def ex_dup_pages(2,3,4) get_words_def ex_dup_dedup deduplicate_words_Nil)
qed

text \<open>
  Claim C7 as stated fails: when the native source contributes one word, the OCR source
  none and the table detector no table, \<^verbatim>\<open>extraction_methods\<close> still lists all three
  methods.
\<close>

theorem extraction_methods_counterexample:
  "set (doc_extraction_methods (reconcile_extraction_sources ex_native_data ex_ocr_data []))
     \<noteq> spec_contributing_methods ex_native_data ex_ocr_data []"
proof -
  have "spec_contributing_methods ex_native_data ex_ocr_data [] = {''pdf_native''}"
    by (simp add: spec_contributing_methods_def get_pages_def get_words_def get_shapes_def
          ex_native_data_def ex_ocr_data_def word_at_def)
  moreover have "''pdf_tables'' \<in> set (doc_extraction_methods
                    (reconcile_extraction_sources ex_native_data ex_ocr_data []))"
    by (simp add: reconcile_extraction_sources_def Let_def)
  moreover have "''pdf_tables'' \<notin> {''pdf_native''}"
    by simp
  ultimately show ?thesis
    by metis
qed



lemma ex_service_init: "AdvancedOCR_init (module_globals ex_env) ex_env = Inr ex_service"
  by (simp add: AdvancedOCR_init_def lookup_module_globals bind_exn_def ex_env_def ex_service_def)





theorem image_path_always_fails_witness:
  "analyze_layout ex_service ex_image = Inl (AttributeError ''AdvancedOCR'' ''layout_model'')
   \<and> (\<exists>detail. extract_image_with_layout ex_service ex_libs ''PNG'' = Inl (HTTPException 500 detail))"
  using image_path_always_fails[of ex_env ex_image ex_libs "''PNG''"] ex_service_init
  by blast

lemma ex_text_upload_unsupported: "\<not> is_pdf_upload ex_text_upload \<and> \<not> is_image_upload ex_text_upload"
  by (simp add: is_pdf_upload_def is_image_upload_def ex_text_upload_def endswith_def
        startswith_def py_lower_def lower_char_def)

theorem unsupported_upload_response_witness:
  "extract_document (module_globals ex_env) ex_service ex_libs ex_text_upload
     = Inl (HTTPException 500 ''Unsupported file type'')"
proof -
  have "extract_document (module_globals ex_env) ex_service ex_libs ex_text_upload
     = Inl (HTTPException 500 (str_of ex_libs (HTTPException 400 ''Unsupported file type'')))"
    using unsupported_upload_response[of ex_text_upload "module_globals ex_env" ex_service ex_libs]
          ex_text_upload_unsupported
    by blast
  then show ?thesis by (simp add: ex_libs_def)
qed

theorem health_check_raises_witness:
  "health_check (module_globals ex_env) ex_service = Inl (NameError ''LAYOUT_PARSER_AVAILABLE'')"
  using health_check_raises[of ex_env ex_service] ex_service_init
  by blast

section \<open>Further properties of the reconciliation engine\<close>

text \<open>
  The intersection over union is symmetric, and so is the duplicate test of the
  deduplicator: which of two words is the incoming one does not change whether they match.
\<close>

theorem duplicate_test_symmetric:
  "spec_iou a b = spec_iou b a \<and> is_duplicate_of w e = is_duplicate_of e w"
  using spec_iou_commute[of a b] is_duplicate_of_commute[of w e] by (rule conjI)

lemma set_dedup_step: "set (dedup_step us w) \<subseteq> insert w (set us)"
  by (cases "scan_unique w us") (auto simp: dedup_step_def dest: notin_set_remove1)

lemma length_dedup_step: "length (dedup_step us w) \<le> Suc (length us)"
  by (cases "scan_unique w us") (auto simp: dedup_step_def length_remove1)

lemma foldl_dedup_step_bounds:
  "set (foldl dedup_step acc ws) \<subseteq> set acc \<union> set ws
   \<and> length (foldl dedup_step acc ws) \<le> length acc + length ws"
proof (induction ws arbitrary: acc)
  case Nil
  then show ?case by simp
next
  case (Cons w ws)
  have "set (foldl dedup_step (dedup_step acc w) ws) \<subseteq> set (dedup_step acc w) \<union> set ws"
    and "length (foldl dedup_step (dedup_step acc w) ws) \<le> length (dedup_step acc w) + length ws"
    using Cons.IH[of "dedup_step acc w"] by auto
  then show ?case
    using set_dedup_step[of acc w] length_dedup_step[of acc w] by auto
qed

text \<open>
  The deduplicator only selects: every word of its output is a word of its input, and the
  output is never longer than the input.
\<close>

theorem deduplicate_words_selects:
  "set (deduplicate_words ws) \<subseteq> set ws \<and> length (deduplicate_words ws) \<le> length ws"
  using foldl_dedup_step_bounds[of "[]" ws] by (simp add: deduplicate_words_def)

lemma sum_list_bounds:
  fixes xs :: "rat list"
  assumes "\<And>v. v \<in> set xs \<Longrightarrow> 0 \<le> v \<and> v \<le> c"
  shows "0 \<le> sum_list xs \<and> sum_list xs \<le> c * of_nat (length xs)"
  using assms
proof (induction xs)
  case Nil
  then show ?case by simp
next
  case (Cons a xs)
  then have "0 \<le> a \<and> a \<le> c" "0 \<le> sum_list xs \<and> sum_list xs \<le> c * of_nat (length xs)"
    by auto
  then show ?case by (simp add: algebra_simps)
qed

text \<open>
  \<^verbatim>\<open>overall_coverage\<close> is the mean of the pages' \<^verbatim>\<open>coverage_percent\<close>: it lies between 0 and
  100, and it is 0 for a document without pages (no division by zero).
\<close>

theorem overall_coverage_range:
  "0 \<le> doc_overall_coverage (reconcile_extraction_sources nd od td)
   \<and> doc_overall_coverage (reconcile_extraction_sources nd od td) \<le> 100
   \<and> doc_overall_coverage
        (reconcile_extraction_sources \<lparr>sd_pages = Some [], sd_total_pages = 0, sd_method = m\<rparr>
           \<lparr>sd_pages = Some [], sd_total_pages = 0, sd_method = m'\<rparr> td) = 0"
proof -
  let ?ps = "map (reconcile_page nd od td)
               [0 ..< max (length (get_pages nd)) (length (get_pages od))]"
  let ?vs = "map (\<lambda>p. cov_coverage_percent (pg_coverage p)) ?ps"
  have b: "0 \<le> sum_list ?vs \<and> sum_list ?vs \<le> 100 * of_nat (length ?vs)"
  proof (rule sum_list_bounds)
    fix v assume "v \<in> set ?vs"
    then obtain i where "v = cov_coverage_percent (pg_coverage (reconcile_page nd od td i))"
      by auto
    then show "0 \<le> v \<and> v \<le> 100"
      using coverage_percent_of_range by (simp add: reconcile_page_coverage)
  qed
  have "0 \<le> doc_overall_coverage (reconcile_extraction_sources nd od td)
   \<and> doc_overall_coverage (reconcile_extraction_sources nd od td) \<le> 100"
  proof (cases "?ps = []")
    case True
    then show ?thesis by (simp add: reconcile_extraction_sources_def Let_def)
  next
    case False
    then have "0 < length ?ps" by (rule length_greater_0_conv[THEN iffD2])
    then have n: "0 < (of_nat (length ?ps) :: rat)" by (simp only: of_nat_0_less_iff)
    have "sum_list ?vs / of_nat (length ?ps) \<le> 100"
      using b n by (simp add: pos_divide_le_eq)
    moreover have "0 \<le> sum_list ?vs / of_nat (length ?ps)"
      using b n by simp
    ultimately show ?thesis
      using False by (simp add: reconcile_extraction_sources_def Let_def)
  qed
  moreover have "doc_overall_coverage
        (reconcile_extraction_sources \<lparr>sd_pages = Some [], sd_total_pages = 0, sd_method = m\<rparr>
           \<lparr>sd_pages = Some [], sd_total_pages = 0, sd_method = m'\<rparr> td) = 0"
    by (simp add: reconcile_extraction_sources_def Let_def get_pages_def)
  ultimately show ?thesis by simp
qed

text \<open>
  Shapes are concatenated, not deduplicated: a page has as many shapes as the native and
  the OCR page together. Its tables are the detected tables with its page number.
\<close>

theorem shapes_and_tables_concatenated:
  "length (pg_shapes (reconcile_page nd od td i))
     = length (get_shapes (page_at nd i)) + length (get_shapes (page_at od i))
   \<and> pg_tables (reconcile_page nd od td i)
     = Some (filter (\<lambda>t. tb_page_number t = Some (i + 1)) td)"
  by (simp add: reconcile_page_def Let_def)

end
